theory Spec2Isabelle
  imports Main "HOL-Library.Sublist"
begin

section \<open>Gmail-Sorting: the job pipeline, the fetcher, the classifier and the labels\<close>

text \<open>
  A shallow embedding of \<^verbatim>\<open>models.py\<close>, \<^verbatim>\<open>classifier.py\<close>, \<^verbatim>\<open>gmail_service.py\<close>,
  \<^verbatim>\<open>workers.py\<close> and the job routes of \<^verbatim>\<open>main.py\<close>.

  Conventions of the embedding.
  \<^item> A Python \<^verbatim>\<open>str\<close> is the \<open>string\<close> of the bytes of its UTF-8 encoding. Concatenation,
    equality and emptiness are those of the byte lists and, UTF-8 being self-synchronising,
    \<^verbatim>\<open>a in b\<close> is \<open>sublist a b\<close>. \<^verbatim>\<open>str.lower\<close> and \<^verbatim>\<open>str.capitalize\<close> follow the Unicode
    tables of the interpreter: they are the fields \<open>str_lower\<close> and \<open>str_capitalize\<close> of
    \<open>env\<close>, arbitrary functions on strings.
  \<^item> An exception is a value of type \<open>exn\<close>; a function that can raise returns
    \<open>exn + 'a\<close> with \<open>Inl\<close> the exception.
  \<^item> The mail provider, the credential refresh, the model file, the task framework's
    progress call and the clock are outside the repository: they are the fields of an
    \<open>env\<close> record, functions on an arbitrary provider state \<open>'w\<close> that may fail and
    may change that state. Every theorem stated for an arbitrary \<open>env\<close> holds for
    every behaviour of those collaborators.
  \<^item> Each call that leaves the process is appended to \<open>calls\<close>, and each loop iteration
    appends the branch it took to \<open>trace\<close>; both are ghost fields, read by theorems only.
  \<^item> \<^verbatim>\<open>time.sleep\<close>, logging and the moments of \<^verbatim>\<open>db.commit()\<close> are not modelled: the job
    object of the running task stands for its row.
\<close>

subsection \<open>models.py\<close>

datatype JobStatus = PENDING | RUNNING | COMPLETED | FAILED | CANCELLED

datatype ModelMode = FAST | BALANCED | ACCURATE

datatype EmailScope = UNREAD | INBOX | RECENT | ALL'

datatype exn =
    HttpError nat
  | HTTPException nat
  | FileNotFoundError
  | ZeroDivisionError
  | ValueError
  | KeyError string
  | Exception string
  | RetryError exn

text \<open>The text of an error entry: a literal of the source, or \<^verbatim>\<open>str(e)\<close> kept symbolic.\<close>

datatype err_text = Text string | Str exn

record error_entry =
  message_id :: "string option"
  error :: err_text

record User =
  user_pk :: string
  email :: string

record Job =
  job_pk :: string
  user_id :: string
  status :: JobStatus
  mode :: ModelMode
  scope :: EmailScope
  total_emails :: int
  processed_emails :: int
  error_count :: int
  category_counts :: "(string \<times> int) list"
  errors :: "error_entry list"
  completed_at :: "nat option"
  celery_task_id :: "string option"

subsection \<open>Python strings and dictionaries\<close>

text \<open>\<^verbatim>\<open>keyword in text\<close> on strings is the contiguous-substring test, \<open>sublist\<close>.\<close>

definition str_in :: "string \<Rightarrow> string \<Rightarrow> bool" where
  "str_in keyword text = sublist keyword text"

text \<open>
  A \<^verbatim>\<open>dict\<close> with string keys is an association list in insertion order with distinct
  keys. \<^verbatim>\<open>d[k] += 1\<close> raises \<^verbatim>\<open>KeyError\<close> on a missing key.
\<close>

definition dict_keys :: "(string \<times> 'v) list \<Rightarrow> string list" where
  "dict_keys d = map fst d"

definition dict_values :: "(string \<times> 'v) list \<Rightarrow> 'v list" where
  "dict_values d = map snd d"

definition dict_get :: "(string \<times> 'v) list \<Rightarrow> string \<Rightarrow> 'v option" where
  "dict_get d k = map_of d k"

definition dict_incr :: "(string \<times> int) list \<Rightarrow> string \<Rightarrow> exn + (string \<times> int) list" where
  "dict_incr d k =
     (if k \<in> set (dict_keys d)
      then Inr (map (\<lambda>(k', v). if k' = k then (k', v + 1) else (k', v)) d)
      else Inl (KeyError k))"

subsection \<open>classifier.py\<close>

definition CATEGORIES :: "(string \<times> string list) list" where
  "CATEGORIES =
     [(''work'', [''meeting'', ''project'', ''deadline'', ''report'', ''team'', ''office'']),
      (''personal'', [''family'', ''friend'', ''dinner'', ''party'', ''birthday'']),
      (''promotion'', [''sale'', ''discount'', ''offer'', ''deal'', ''promo'', ''coupon'']),
      (''spam'', [''lottery'', ''winner'', ''urgent'', ''verify'', ''click here'',
                  ''congratulations'']),
      (''finance'', [''invoice'', ''payment'', ''transaction'', ''bank'', ''credit'', ''debit'']),
      (''security'', [''password'', ''security'', ''alert'', ''verify'', ''authentication'',
                      ''login''])]"

text \<open>\<^verbatim>\<open>self.CATEGORIES[name]["keywords"]\<close>; the source indexes it with the six literals only.\<close>

definition keywords_of :: "string \<Rightarrow> string list" where
  "keywords_of name = (case map_of CATEGORIES name of Some ks \<Rightarrow> ks | None \<Rightarrow> [])"

text \<open>\<^verbatim>\<open>sum(1 for keyword in ks if keyword in text)\<close>\<close>

definition score :: "string list \<Rightarrow> string \<Rightarrow> int" where
  "score ks text = sum_list (map (\<lambda>keyword. 1) (filter (\<lambda>keyword. str_in keyword text) ks))"

definition rule_based_classify :: "string \<Rightarrow> string option" where
  "rule_based_classify text =
     (if score (keywords_of ''spam'') text \<ge> 2 then Some ''spam''
      else if score (keywords_of ''security'') text \<ge> 2 then Some ''security''
      else if list_ex (\<lambda>keyword. str_in keyword text) (keywords_of ''finance'') then Some ''finance''
      else if score (keywords_of ''promotion'') text \<ge> 2 then Some ''promotion''
      else if score (keywords_of ''work'') text \<ge> 2 then Some ''work''
      else None)"

text \<open>
  The classifier object: its mode and its model. A loaded model is its \<^verbatim>\<open>predict\<close>, which
  returns a label or raises.
\<close>

record EmailClassifier =
  clf_mode :: ModelMode
  model :: "(string \<Rightarrow> exn + string) option"

text \<open>\<^verbatim>\<open>_ml_classify\<close>: no model gives \<^verbatim>\<open>None\<close>; an exception of \<^verbatim>\<open>predict\<close> is caught and gives \<^verbatim>\<open>None\<close>.\<close>

definition ml_classify :: "EmailClassifier \<Rightarrow> string \<Rightarrow> exn + string option" where
  "ml_classify self text =
     (case model self of
        None \<Rightarrow> Inr None
      | Some predict \<Rightarrow>
          (case predict text of
             Inr prediction \<Rightarrow> Inr (Some prediction)
           | Inl e \<Rightarrow> Inr None))"

text \<open>
  \<^verbatim>\<open>classify(subject, body, sender)\<close>; the first argument is the \<^verbatim>\<open>str.lower\<close> of the
  interpreter. \<^verbatim>\<open>if category:\<close> is false for \<^verbatim>\<open>None\<close> and for the empty string. The \<^verbatim>\<open>try\<close>
  around \<^verbatim>\<open>_ml_classify\<close> catches every exception.
\<close>

definition classify ::
  "(string \<Rightarrow> string) \<Rightarrow> EmailClassifier \<Rightarrow> string \<Rightarrow> string \<Rightarrow> string \<Rightarrow> exn + string" where
  "classify lower self subject body sender =
     (let text = lower (subject @ '' '' @ body @ '' '' @ sender) in
      case rule_based_classify text of
        Some category \<Rightarrow> Inr category
      | None \<Rightarrow>
          (if clf_mode self \<noteq> FAST \<and> model self \<noteq> None
           then (case ml_classify self text of
                   Inr (Some category) \<Rightarrow> (if category \<noteq> [] then Inr category else Inr ''personal'')
                 | Inr None \<Rightarrow> Inr ''personal''
                 | Inl e \<Rightarrow> Inr ''personal'')
           else Inr ''personal''))"

subsection \<open>The collaborators outside the repository\<close>

text \<open>
  What the provider returns. A message part has a MIME type, the data of its body
  (\<^verbatim>\<open>part["body"].get("data")\<close>, absent or a string) and, when it is a multipart, its parts.
\<close>

datatype part = Part (mimeType: string) (body_data: "string option") (parts: "part list option")

record message =
  headers :: "(string \<times> string) list"
  payload :: part
  snippet :: string
  labelIds :: "string list"

record list_page =
  messages :: "string list"
  nextPageToken :: "string option"

record label =
  label_name :: string
  label_id :: string

record Settings =
  GMAIL_MAX_RESULTS :: int
  GMAIL_RATE_LIMIT_PER_SECOND :: int

record 'w env =
  messages_list :: "string \<Rightarrow> int \<Rightarrow> string option \<Rightarrow> 'w \<Rightarrow> (exn + list_page) \<times> 'w"
  messages_get :: "string \<Rightarrow> 'w \<Rightarrow> (exn + message) \<times> 'w"
  labels_list :: "'w \<Rightarrow> (exn + label list) \<times> 'w"
  labels_create :: "string \<Rightarrow> 'w \<Rightarrow> (exn + label) \<times> 'w"
  messages_modify :: "string \<Rightarrow> string \<Rightarrow> 'w \<Rightarrow> (exn + unit) \<times> 'w"
  b64decode :: "string \<Rightarrow> exn + string"
  refresh_google_token :: "User \<Rightarrow> 'w \<Rightarrow> (exn + unit) \<times> 'w"
  joblib_load :: "exn + (string \<Rightarrow> exn + string)"
  update_state :: "int \<Rightarrow> int \<Rightarrow> (string \<times> int) list \<Rightarrow> 'w \<Rightarrow> (exn + unit) \<times> 'w"
  revoke :: "string \<Rightarrow> 'w \<Rightarrow> (exn + unit) \<times> 'w"
  str_lower :: "string \<Rightarrow> string"
  str_capitalize :: "string \<Rightarrow> string"
  seven_days_ago :: string
  utcnow :: nat

datatype call =
    RefreshToken string
  | MessagesList string int "string option"
  | MessagesGet string
  | LabelsList
  | LabelsCreate string
  | MessagesModify string string
  | UpdateState int int
  | Revoke string

text \<open>The branch one loop iteration took (ghost).\<close>

datatype outcome =
    FetchFailed
  | Raised exn
  | Labeled string
  | ApplyFailed
  | Skipped string

record 'w world =
  calls :: "call list"
  trace :: "outcome list"
  prov :: "'w"

definition api :: "call \<Rightarrow> ('w \<Rightarrow> (exn + 'a) \<times> 'w) \<Rightarrow> 'w world \<Rightarrow> (exn + 'a) \<times> 'w world" where
  "api c f s = (case f (prov s) of (r, w') \<Rightarrow> (r, s\<lparr>calls := calls s @ [c], prov := w'\<rparr>))"

text \<open>
  The \<^verbatim>\<open>@retry\<close> decorator of tenacity with \<^verbatim>\<open>stop_after_attempt(n + 1)\<close>: an attempt that
  returns ends the call; an exception the \<^verbatim>\<open>retry\<close> predicate rejects is raised as it is;
  an accepted one starts the next attempt, and after the last attempt \<^verbatim>\<open>RetryError\<close> is
  raised. \<open>n\<close> counts the attempts still allowed after this one. The waits are not modelled.
\<close>

primrec retrying :: "nat \<Rightarrow> (exn \<Rightarrow> bool) \<Rightarrow> ('s \<Rightarrow> (exn + 'a) \<times> 's) \<Rightarrow> 's \<Rightarrow> (exn + 'a) \<times> 's" where
  "retrying 0 should_retry f s =
     (case f s of
        (Inr v, s') \<Rightarrow> (Inr v, s')
      | (Inl e, s') \<Rightarrow> if should_retry e then (Inl (RetryError e), s') else (Inl e, s'))"
| "retrying (Suc n) should_retry f s =
     (case f s of
        (Inr v, s') \<Rightarrow> (Inr v, s')
      | (Inl e, s') \<Rightarrow> if should_retry e then retrying n should_retry f s' else (Inl e, s'))"

text \<open>The same decorator around a function whose loop may not return (\<open>None\<close>).\<close>

primrec retrying_opt ::
  "nat \<Rightarrow> (exn \<Rightarrow> bool) \<Rightarrow> ('s \<Rightarrow> ((exn + 'a) \<times> 's) option) \<Rightarrow> 's \<Rightarrow> ((exn + 'a) \<times> 's) option" where
  "retrying_opt 0 should_retry f s =
     (case f s of
        None \<Rightarrow> None
      | Some (Inr v, s') \<Rightarrow> Some (Inr v, s')
      | Some (Inl e, s') \<Rightarrow>
          if should_retry e then Some (Inl (RetryError e), s') else Some (Inl e, s'))"
| "retrying_opt (Suc n) should_retry f s =
     (case f s of
        None \<Rightarrow> None
      | Some (Inr v, s') \<Rightarrow> Some (Inr v, s')
      | Some (Inl e, s') \<Rightarrow>
          if should_retry e then retrying_opt n should_retry f s' else Some (Inl e, s'))"

fun is_HttpError :: "exn \<Rightarrow> bool" where
  "is_HttpError (HttpError c) = True"
| "is_HttpError e = False"

definition any_exception :: "exn \<Rightarrow> bool" where
  "any_exception e = True"

subsection \<open>gmail_service.py\<close>

fun build_query :: "'w env \<Rightarrow> EmailScope \<Rightarrow> string" where
  "build_query g UNREAD = ''is:unread''"
| "build_query g INBOX = ''in:inbox''"
| "build_query g RECENT = ''after:'' @ seven_days_ago g"
| "build_query g ALL' = []"

text \<open>\<^verbatim>\<open>xs[:n]\<close>: a negative \<open>n\<close> counts from the end.\<close>

definition slice_to :: "int \<Rightarrow> 'a list \<Rightarrow> 'a list" where
  "slice_to n xs = (if 0 \<le> n then take (nat n) xs else take (length xs - nat (- n)) xs)"

text \<open>
  The \<^verbatim>\<open>while\<close> loop of \<^verbatim>\<open>get_messages\<close>. A provider that keeps sending a continuation
  token and no message keeps it running: the loop is a partial function, \<open>None\<close> when it
  does not return. \<^verbatim>\<open>if not page_token\<close> holds for an absent token and for the empty one.
\<close>

partial_function (option) get_messages_loop ::
  "'w env \<Rightarrow> string \<Rightarrow> int \<Rightarrow> string list \<Rightarrow> string option \<Rightarrow> 'w world
     \<Rightarrow> ((exn + string list) \<times> 'w world) option" where
  "get_messages_loop g query max_results message_ids page_token s =
     (if int (length message_ids) < max_results
      then (let n = min 500 (max_results - int (length message_ids)) in
            case api (MessagesList query n page_token) (messages_list g query n page_token) s of
              (Inl e, s') \<Rightarrow> Some (Inl e, s')
            | (Inr results, s') \<Rightarrow>
                (let message_ids' = message_ids @ messages results;
                     page_token' = nextPageToken results
                 in if page_token' = None \<or> page_token' = Some []
                    then Some (Inr message_ids', s')
                    else get_messages_loop g query max_results message_ids' page_token' s'))
      else Some (Inr message_ids, s))"

declare get_messages_loop.simps [code]

text \<open>\<^verbatim>\<open>max_results or settings.GMAIL_MAX_RESULTS\<close>: \<^verbatim>\<open>None\<close> and \<^verbatim>\<open>0\<close> give the setting.\<close>

definition or_default :: "int option \<Rightarrow> int \<Rightarrow> int" where
  "or_default max_results d =
     (case max_results of None \<Rightarrow> d | Some n \<Rightarrow> if n = 0 then d else n)"

definition get_messages_attempt ::
  "'w env \<Rightarrow> Settings \<Rightarrow> EmailScope \<Rightarrow> int option \<Rightarrow> 'w world
     \<Rightarrow> ((exn + string list) \<times> 'w world) option" where
  "get_messages_attempt g settings scp max_results s =
     (let max_results' = or_default max_results (GMAIL_MAX_RESULTS settings);
          query = build_query g scp
      in case get_messages_loop g query max_results' [] None s of
           None \<Rightarrow> None
         | Some (Inl e, s') \<Rightarrow> Some (Inl e, s')
         | Some (Inr message_ids, s') \<Rightarrow> Some (Inr (slice_to max_results' message_ids), s'))"

definition get_messages ::
  "'w env \<Rightarrow> Settings \<Rightarrow> EmailScope \<Rightarrow> int option \<Rightarrow> 'w world
     \<Rightarrow> ((exn + string list) \<times> 'w world) option" where
  "get_messages g settings scp max_results s =
     retrying_opt 2 is_HttpError (get_messages_attempt g settings scp max_results) s"

text \<open>\<^verbatim>\<open>_extract_body\<close>; \<^verbatim>\<open>.get("data")\<close> and \<^verbatim>\<open>if body\<close> are false for the empty string.\<close>

fun extract_body :: "(string \<Rightarrow> exn + string) \<Rightarrow> part \<Rightarrow> exn + string"
  and extract_parts :: "(string \<Rightarrow> exn + string) \<Rightarrow> part list \<Rightarrow> exn + string" where
  "extract_body dec (Part mt data ps) =
     (if data \<noteq> None \<and> data \<noteq> Some [] then dec (the data)
      else (case ps of None \<Rightarrow> Inr [] | Some ps' \<Rightarrow> extract_parts dec ps'))"
| "extract_parts dec [] = Inr []"
| "extract_parts dec (Part mt data ps # rest) =
     (if mt = ''text/plain''
      then (if data \<noteq> None \<and> data \<noteq> Some [] then dec (the data) else extract_parts dec rest)
      else if ps \<noteq> None
      then (case extract_body dec (Part mt data ps) of
              Inl e \<Rightarrow> Inl e
            | Inr body \<Rightarrow> if body \<noteq> [] then Inr body else extract_parts dec rest)
      else extract_parts dec rest)"

record message_detail =
  md_id :: string
  md_subject :: string
  md_from :: string
  md_body :: string
  md_snippet :: string
  md_labels :: "string list"

text \<open>\<^verbatim>\<open>headers.get(k, "")\<close> on the dictionary built from the header list (a later header wins).\<close>

definition header_get :: "(string \<times> string) list \<Rightarrow> string \<Rightarrow> string" where
  "header_get hs k = (case map_of (rev hs) k of Some v \<Rightarrow> v | None \<Rightarrow> [])"

text \<open>
  One attempt of \<^verbatim>\<open>get_message_detail\<close>: an \<^verbatim>\<open>HttpError\<close> is caught and \<^verbatim>\<open>None\<close> is
  returned; any other exception leaves the attempt.
\<close>

definition get_message_detail_attempt ::
  "'w env \<Rightarrow> string \<Rightarrow> 'w world \<Rightarrow> (exn + message_detail option) \<times> 'w world" where
  "get_message_detail_attempt g mid s =
     (case api (MessagesGet mid) (messages_get g mid) s of
        (Inl e, s') \<Rightarrow> if is_HttpError e then (Inr None, s') else (Inl e, s')
      | (Inr msg, s') \<Rightarrow>
          (case extract_body (b64decode g) (payload msg) of
             Inl e \<Rightarrow> if is_HttpError e then (Inr None, s') else (Inl e, s')
           | Inr b \<Rightarrow>
               (Inr (Some \<lparr>md_id = mid, md_subject = header_get (headers msg) ''Subject'',
                            md_from = header_get (headers msg) ''From'', md_body = b,
                            md_snippet = snippet msg, md_labels = labelIds msg\<rparr>), s')))"

definition get_message_detail ::
  "'w env \<Rightarrow> string \<Rightarrow> 'w world \<Rightarrow> (exn + message_detail option) \<times> 'w world" where
  "get_message_detail g mid s = retrying 2 any_exception (get_message_detail_attempt g mid) s"

definition create_label_attempt ::
  "'w env \<Rightarrow> string \<Rightarrow> 'w world \<Rightarrow> (exn + string) \<times> 'w world" where
  "create_label_attempt g name s =
     (case api LabelsList (labels_list g) s of
        (Inl e, s') \<Rightarrow> (Inl e, s')
      | (Inr existing_labels, s') \<Rightarrow>
          (case find (\<lambda>l. str_lower g (label_name l) = str_lower g name) existing_labels of
             Some l \<Rightarrow> (Inr (label_id l), s')
           | None \<Rightarrow>
               (case api (LabelsCreate name) (labels_create g name) s' of
                  (Inl e, s'') \<Rightarrow> (Inl e, s'')
                | (Inr created_label, s'') \<Rightarrow> (Inr (label_id created_label), s''))))"

definition create_label :: "'w env \<Rightarrow> string \<Rightarrow> 'w world \<Rightarrow> (exn + string) \<times> 'w world" where
  "create_label g name s = retrying 2 any_exception (create_label_attempt g name) s"

text \<open>
  One attempt of \<^verbatim>\<open>apply_label\<close>. \<^verbatim>\<open>time.sleep(1.0 / rate)\<close> stands inside the \<^verbatim>\<open>try\<close>, which
  catches \<^verbatim>\<open>HttpError\<close> only: a rate of 0 raises \<^verbatim>\<open>ZeroDivisionError\<close>, a negative one
  \<^verbatim>\<open>ValueError\<close>.
\<close>

definition apply_label_attempt ::
  "'w env \<Rightarrow> Settings \<Rightarrow> string \<Rightarrow> string \<Rightarrow> 'w world \<Rightarrow> (exn + bool) \<times> 'w world" where
  "apply_label_attempt g settings mid lid s =
     (case api (MessagesModify mid lid) (messages_modify g mid lid) s of
        (Inl e, s') \<Rightarrow> if is_HttpError e then (Inr False, s') else (Inl e, s')
      | (Inr u, s') \<Rightarrow>
          if GMAIL_RATE_LIMIT_PER_SECOND settings = 0 then (Inl ZeroDivisionError, s')
          else if GMAIL_RATE_LIMIT_PER_SECOND settings < 0 then (Inl ValueError, s')
          else (Inr True, s'))"

definition apply_label ::
  "'w env \<Rightarrow> Settings \<Rightarrow> string \<Rightarrow> string \<Rightarrow> 'w world \<Rightarrow> (exn + bool) \<times> 'w world" where
  "apply_label g settings mid lid s =
     retrying 2 any_exception (apply_label_attempt g settings mid lid) s"

subsection \<open>workers.py\<close>

text \<open>\<^verbatim>\<open>EmailClassifier(mode)\<close>: the model file is read for the two model modes only; a missing
  file leaves the model unset, any other exception of the load leaves the constructor.\<close>

definition EmailClassifier_init :: "'w env \<Rightarrow> ModelMode \<Rightarrow> exn + EmailClassifier" where
  "EmailClassifier_init g m =
     (if m = BALANCED \<or> m = ACCURATE
      then (case joblib_load g of
              Inr p \<Rightarrow> Inr \<lparr>clf_mode = m, model = Some p\<rparr>
            | Inl e \<Rightarrow> if e = FileNotFoundError then Inr \<lparr>clf_mode = m, model = None\<rparr> else Inl e)
      else Inr \<lparr>clf_mode = m, model = None\<rparr>)"

text \<open>The local variables of the task that the loop changes.\<close>

record locals =
  job :: Job
  category_counts_v :: "(string \<times> int) list"
  errors_v :: "error_entry list"

text \<open>\<^verbatim>\<open>errors.append({"message_id": message_id, "error": t}); job.error_count += 1\<close>\<close>

definition record_error :: "string \<Rightarrow> err_text \<Rightarrow> locals \<Rightarrow> locals" where
  "record_error mid t l =
     l\<lparr>errors_v := errors_v l @ [\<lparr>message_id = Some mid, error = t\<rparr>],
       job := (job l)\<lparr>error_count := error_count (job l) + 1\<rparr>\<rparr>"

definition log_outcome :: "outcome \<Rightarrow> 'w world \<Rightarrow> 'w world" where
  "log_outcome oc s = s\<lparr>trace := trace s @ [oc]\<rparr>"

text \<open>Lines 106 to 113: the label of the category, when the cache has one, is applied.\<close>

definition label_stage ::
  "'w env \<Rightarrow> Settings \<Rightarrow> (string \<times> string) list \<Rightarrow> string \<Rightarrow> string \<Rightarrow> locals \<times> 'w world
     \<Rightarrow> (exn + outcome) \<times> locals \<times> 'w world" where
  "label_stage g settings label_cache mid category ls =
     (case ls of (l, s) \<Rightarrow>
        (case dict_get label_cache category of
           None \<Rightarrow> (Inr (Skipped category), l, s)
         | Some lid \<Rightarrow>
             if lid = [] then (Inr (Skipped category), l, s)
             else (case apply_label g settings mid lid s of
                     (Inl e, s') \<Rightarrow> (Inl e, l, s')
                   | (Inr success, s') \<Rightarrow>
                       if success
                       then (case dict_incr (category_counts_v l) category of
                               Inl e \<Rightarrow> (Inl e, l, s')
                             | Inr cc \<Rightarrow> (Inr (Labeled category), l\<lparr>category_counts_v := cc\<rparr>, s'))
                       else (Inr ApplyFailed,
                             record_error mid (Text ''Failed to apply label'') l, s'))))"

text \<open>Lines 115 to 127: the counters of the job, and the progress call every tenth message.\<close>

definition progress_stage ::
  "'w env \<Rightarrow> int \<Rightarrow> nat \<Rightarrow> locals \<times> 'w world \<Rightarrow> (exn + unit) \<times> locals \<times> 'w world" where
  "progress_stage g tot idx ls =
     (case ls of (l, s) \<Rightarrow>
        (let l' = l\<lparr>job := (job l)\<lparr>processed_emails := int idx + 1,
                                    category_counts := category_counts_v l\<rparr>\<rparr>
         in if (int idx + 1) mod 10 = 0
            then (case api (UpdateState (int idx + 1) tot)
                         (update_state g (int idx + 1) tot (category_counts_v l')) s of
                    (Inl e, s') \<Rightarrow> (Inl e, l', s')
                  | (Inr u, s') \<Rightarrow> (Inr (), l', s'))
            else (Inr (), l', s)))"

text \<open>
  The body of the \<^verbatim>\<open>for\<close> loop, lines 93 to 132. The \<^verbatim>\<open>except Exception\<close> of the body
  records the exception and goes on with the next message; the \<^verbatim>\<open>continue\<close> after a
  failed fetch leaves the body before the counters are written.
\<close>

definition process_message ::
  "'w env \<Rightarrow> Settings \<Rightarrow> EmailClassifier \<Rightarrow> (string \<times> string) list \<Rightarrow> int \<Rightarrow> nat \<Rightarrow> string
     \<Rightarrow> locals \<times> 'w world \<Rightarrow> locals \<times> 'w world" where
  "process_message g settings classifier label_cache tot idx mid ls =
     (case ls of (l, s) \<Rightarrow>
        (case get_message_detail g mid s of
           (Inl e, s1) \<Rightarrow> (record_error mid (Str e) l, log_outcome (Raised e) s1)
         | (Inr None, s1) \<Rightarrow> (record_error mid (Text ''Failed to fetch'') l, log_outcome FetchFailed s1)
         | (Inr (Some md), s1) \<Rightarrow>
             (case classify (str_lower g) classifier (md_subject md) (md_body md) (md_from md) of
                Inl e \<Rightarrow> (record_error mid (Str e) l, log_outcome (Raised e) s1)
              | Inr category \<Rightarrow>
                  (case label_stage g settings label_cache mid category (l, s1) of
                     (Inl e, l2, s2) \<Rightarrow> (record_error mid (Str e) l2, log_outcome (Raised e) s2)
                   | (Inr oc, l2, s2) \<Rightarrow>
                       (case progress_stage g tot idx (l2, s2) of
                          (Inl e, l3, s3) \<Rightarrow> (record_error mid (Str e) l3, log_outcome (Raised e) s3)
                        | (Inr u, l3, s3) \<Rightarrow> (l3, log_outcome oc s3))))))"

text \<open>\<^verbatim>\<open>for idx, message_id in enumerate(message_ids)\<close>, from index \<open>idx\<close> on.\<close>

fun process_messages ::
  "'w env \<Rightarrow> Settings \<Rightarrow> EmailClassifier \<Rightarrow> (string \<times> string) list \<Rightarrow> int \<Rightarrow> nat \<Rightarrow> string list
     \<Rightarrow> locals \<times> 'w world \<Rightarrow> locals \<times> 'w world" where
  "process_messages g settings classifier label_cache tot idx [] ls = ls"
| "process_messages g settings classifier label_cache tot idx (mid # rest) ls =
     process_messages g settings classifier label_cache tot (Suc idx) rest
       (process_message g settings classifier label_cache tot idx mid ls)"

text \<open>Lines 83 to 86: one label per category, in the order of the table.\<close>

fun create_labels ::
  "'w env \<Rightarrow> string list \<Rightarrow> (string \<times> string) list \<Rightarrow> 'w world
     \<Rightarrow> (exn + (string \<times> string) list) \<times> 'w world" where
  "create_labels g [] label_cache s = (Inr label_cache, s)"
| "create_labels g (category # rest) label_cache s =
     (case create_label g (''Cloudidian/'' @ str_capitalize g category) s of
        (Inl e, s') \<Rightarrow> (Inl e, s')
      | (Inr lid, s') \<Rightarrow> create_labels g rest (label_cache @ [(category, lid)]) s')"

text \<open>Lines 134 to 137, after the loop: \<^verbatim>\<open>errors[:100]\<close> keeps the first hundred entries.\<close>

definition finish_job :: "'w env \<Rightarrow> locals \<Rightarrow> Job" where
  "finish_job g l =
     (job l)\<lparr>status := COMPLETED, completed_at := Some (utcnow g),
             errors := take 100 (errors_v l)\<rparr>"

text \<open>
  The \<^verbatim>\<open>try\<close> block of the task, lines 62 to 139, on the loaded job and user. The job is
  returned as it stands when the block ends or when an exception leaves it.
\<close>

definition task_body ::
  "'w env \<Rightarrow> Settings \<Rightarrow> string \<Rightarrow> User \<Rightarrow> ModelMode \<Rightarrow> EmailScope \<Rightarrow> Job \<Rightarrow> 'w world
     \<Rightarrow> ((exn + unit) \<times> Job \<times> 'w world) option" where
  "task_body g settings request_id user md scp job0 s0 =
     (let job1 = job0\<lparr>status := RUNNING, celery_task_id := Some request_id\<rparr> in
      case api (RefreshToken (user_pk user)) (refresh_google_token g user) s0 of
        (Inl e, s1) \<Rightarrow> Some (Inl e, job1, s1)
      | (Inr u, s1) \<Rightarrow>
          (case EmailClassifier_init g md of
             Inl e \<Rightarrow> Some (Inl e, job1, s1)
           | Inr classifier \<Rightarrow>
               (case get_messages g settings scp (Some (GMAIL_MAX_RESULTS settings)) s1 of
                  None \<Rightarrow> None
                | Some (Inl e, s2) \<Rightarrow> Some (Inl e, job1, s2)
                | Some (Inr message_ids, s2) \<Rightarrow>
                    (let job2 = job1\<lparr>total_emails := int (length message_ids)\<rparr> in
                     case create_labels g (dict_keys CATEGORIES) [] s2 of
                       (Inl e, s3) \<Rightarrow> Some (Inl e, job2, s3)
                     | (Inr label_cache, s3) \<Rightarrow>
                         (case process_messages g settings classifier label_cache
                                 (int (length message_ids)) 0 message_ids
                                 (\<lparr>job = job2,
                                   category_counts_v = map (\<lambda>cat. (cat, 0)) (dict_keys CATEGORIES),
                                   errors_v = []\<rparr>, s3) of
                            (l, s4) \<Rightarrow> Some (Inr (), finish_job g l, s4))))))"

record db =
  jobs :: "string \<rightharpoonup> Job"
  users :: "string \<rightharpoonup> User"

text \<open>
  \<^verbatim>\<open>classify_emails_task\<close>: the job and the user are loaded; when either is missing the
  task logs and returns. An exception of the \<^verbatim>\<open>try\<close> block sets the job to \<^verbatim>\<open>FAILED\<close> with
  one error entry and is raised again.
\<close>

definition classify_emails_task ::
  "'w env \<Rightarrow> Settings \<Rightarrow> string \<Rightarrow> string \<Rightarrow> string \<Rightarrow> ModelMode \<Rightarrow> EmailScope \<Rightarrow> db \<times> 'w world
     \<Rightarrow> ((exn + unit) \<times> db \<times> 'w world) option" where
  "classify_emails_task g settings request_id jid uid md scp ds =
     (case ds of (d, s) \<Rightarrow>
        (case jobs d jid of
           None \<Rightarrow> Some (Inr (), d, s)
         | Some job0 \<Rightarrow>
             (case users d uid of
                None \<Rightarrow> Some (Inr (), d, s)
              | Some user \<Rightarrow>
                  (case task_body g settings request_id user md scp job0 s of
                     None \<Rightarrow> None
                   | Some (Inr u, job', s') \<Rightarrow> Some (Inr (), d\<lparr>jobs := (jobs d)(jid \<mapsto> job')\<rparr>, s')
                   | Some (Inl e, job', s') \<Rightarrow>
                       Some (Inl e,
                             d\<lparr>jobs := (jobs d)(jid \<mapsto>
                                  job'\<lparr>status := FAILED,
                                       errors := [\<lparr>message_id = None, error = Str e\<rparr>]\<rparr>)\<rparr>,
                             s')))))"

subsection \<open>main.py: the job routes\<close>

text \<open>The row \<^verbatim>\<open>start_classification_job\<close> inserts, with the defaults of the columns.\<close>

definition new_job :: "string \<Rightarrow> string \<Rightarrow> ModelMode \<Rightarrow> EmailScope \<Rightarrow> Job" where
  "new_job jid uid md scp =
     \<lparr>job_pk = jid, user_id = uid, status = PENDING, mode = md, scope = scp,
      total_emails = 0, processed_emails = 0, error_count = 0, category_counts = [],
      errors = [], completed_at = None, celery_task_id = None\<rparr>"


subsection \<open>The rule pass as the specification words it\<close>

text \<open>
  The rule pass in the words of the specification: the number of distinct keywords of a
  set that occur in the text, and the first category, in the fixed priority order, whose
  threshold that number reaches.
\<close>

definition distinct_hits :: "string list \<Rightarrow> string \<Rightarrow> nat" where
  "distinct_hits ks text = card {k \<in> set ks. sublist k text}"

definition spec_rule_pass :: "string \<Rightarrow> string option" where
  "spec_rule_pass text =
     map_option fst
       (find (\<lambda>(c, n). n \<le> distinct_hits (keywords_of c) text)
          [(''spam'', 2), (''security'', 2), (''finance'', 1), (''promotion'', 2), (''work'', 2)])"

subsection \<open>A reference provider\<close>

text \<open>
  A provider that behaves as the interface of the mail API is documented, used to state what
  the fetcher and the label manager return against a well-behaved mailbox and to run the
  task on concrete inputs. Its state is a mailbox in listing order, the remote labels, the
  labels applied so far and the exceptions its next \<^verbatim>\<open>messages.get\<close> calls raise.
  \<^item> \<^verbatim>\<open>messages.list\<close> serves the ids that match the query, at most \<^verbatim>\<open>maxResults\<close> a page;
    the continuation token is absent on the last page and otherwise encodes the offset of
    the next page (as a string of that length).
  \<^item> \<^verbatim>\<open>labels.list\<close> returns the stored labels; \<^verbatim>\<open>labels.create\<close> stores a label of the
    given name under the id \<open>fresh\<close> chooses and returns it.
  \<^item> \<^verbatim>\<open>messages.modify\<close> records the label; \<^verbatim>\<open>messages.get\<close> raises the next scripted
    exception when there is one, answers 404 for an unknown id and returns the message
    otherwise.
  \<^item> The credential refresh, the progress call and the revocation return.
\<close>

text \<open>
  The examples are ASCII text, on which \<^verbatim>\<open>str.lower\<close> and \<^verbatim>\<open>str.capitalize\<close> change the
  letters \<^verbatim>\<open>A\<close> to \<^verbatim>\<open>Z\<close> and \<^verbatim>\<open>a\<close> to \<^verbatim>\<open>z\<close> only.
\<close>

definition lower_char :: "char \<Rightarrow> char" where
  "lower_char c =
     (let n = (of_char c :: nat) in if 65 \<le> n \<and> n \<le> 90 then char_of (n + 32) else c)"

definition upper_char :: "char \<Rightarrow> char" where
  "upper_char c =
     (let n = (of_char c :: nat) in if 97 \<le> n \<and> n \<le> 122 then char_of (n - 32) else c)"

definition ascii_lower :: "string \<Rightarrow> string" where
  "ascii_lower s = map lower_char s"

fun ascii_capitalize :: "string \<Rightarrow> string" where
  "ascii_capitalize [] = []"
| "ascii_capitalize (c # cs) = upper_char c # ascii_lower cs"

record gmail_state =
  inbox :: "(string \<times> message) list"
  remote_labels :: "label list"
  applied :: "(string \<times> string) list"
  get_faults :: "exn list"

definition ref_list ::
  "(string \<Rightarrow> string \<Rightarrow> bool) \<Rightarrow> string \<Rightarrow> int \<Rightarrow> string option \<Rightarrow> gmail_state
     \<Rightarrow> (exn + list_page) \<times> gmail_state" where
  "ref_list matches q n tok w =
     (let ids = filter (matches q) (map fst (inbox w));
          off = (case tok of None \<Rightarrow> 0 | Some t \<Rightarrow> length t)
      in (Inr \<lparr>messages = take (nat n) (drop off ids),
               nextPageToken = (if off + nat n < length ids
                                then Some (replicate (off + nat n) (CHR ''t'')) else None)\<rparr>, w))"

definition ref_get :: "string \<Rightarrow> gmail_state \<Rightarrow> (exn + message) \<times> gmail_state" where
  "ref_get mid w =
     (case get_faults w of
        e # es \<Rightarrow> (Inl e, w\<lparr>get_faults := es\<rparr>)
      | [] \<Rightarrow> (case map_of (inbox w) mid of
                 None \<Rightarrow> (Inl (HttpError 404), w)
               | Some m \<Rightarrow> (Inr m, w)))"

definition ref_create ::
  "(label list \<Rightarrow> string \<Rightarrow> string) \<Rightarrow> string \<Rightarrow> gmail_state \<Rightarrow> (exn + label) \<times> gmail_state" where
  "ref_create fresh name w =
     (let l = \<lparr>label_name = name, label_id = fresh (remote_labels w) name\<rparr>
      in (Inr l, w\<lparr>remote_labels := remote_labels w @ [l]\<rparr>))"

definition ref_env ::
  "(string \<Rightarrow> string \<Rightarrow> bool) \<Rightarrow> (label list \<Rightarrow> string \<Rightarrow> string)
     \<Rightarrow> exn + (string \<Rightarrow> exn + string) \<Rightarrow> gmail_state env" where
  "ref_env matches fresh load =
     \<lparr>messages_list = ref_list matches,
      messages_get = ref_get,
      labels_list = (\<lambda>w. (Inr (remote_labels w), w)),
      labels_create = ref_create fresh,
      messages_modify = (\<lambda>mid lid w. (Inr (), w\<lparr>applied := applied w @ [(mid, lid)]\<rparr>)),
      b64decode = (\<lambda>d. Inr d),
      refresh_google_token = (\<lambda>u w. (Inr (), w)),
      joblib_load = load,
      update_state = (\<lambda>p t c w. (Inr (), w)),
      revoke = (\<lambda>t w. (Inr (), w)),
      str_lower = ascii_lower,
      str_capitalize = ascii_capitalize,
      seven_days_ago = ''2026/10/28'',
      utcnow = 0\<rparr>"

text \<open>The concrete inputs of the examples.\<close>

definition demo_env :: "gmail_state env" where
  "demo_env = ref_env (\<lambda>q mid. True) (\<lambda>ls name. ''Label_'' @ name) (Inl FileNotFoundError)"


definition plain :: "string \<Rightarrow> string \<Rightarrow> string \<Rightarrow> message" where
  "plain subj frm txt =
     \<lparr>headers = [(''Subject'', subj), (''From'', frm)],
      payload = Part ''text/plain'' (Some txt) None, snippet = [], labelIds = []\<rparr>"

definition world0 :: "(string \<times> message) list \<Rightarrow> exn list \<Rightarrow> gmail_state world" where
  "world0 box faults =
     \<lparr>calls = [], trace = [],
      prov = \<lparr>inbox = box, remote_labels = [], applied = [], get_faults = faults\<rparr>\<rparr>"

definition demo_settings :: Settings where
  "demo_settings = \<lparr>GMAIL_MAX_RESULTS = 500, GMAIL_RATE_LIMIT_PER_SECOND = 10\<rparr>"



text \<open>
  The reference provider with a \<^verbatim>\<open>labels.create\<close> that raises the next scripted exception,
  storing nothing, when there is one.
\<close>

definition flaky_create_env :: "gmail_state env" where
  "flaky_create_env =
     demo_env\<lparr>labels_create :=
       (\<lambda>name w. case get_faults w of
                    e # es \<Rightarrow> (Inl e, w\<lparr>get_faults := es\<rparr>)
                  | [] \<Rightarrow> ref_create (\<lambda>ls name. ''Label_'' @ name) name w)\<rparr>"

section \<open>Properties\<close>

subsection \<open>The classifier\<close>

lemma score_length: "score ks text = int (length (filter (\<lambda>k. sublist k text) ks))"
  by (induction ks) (simp_all add: score_def str_in_def)

lemma score_distinct_hits:
  assumes "distinct ks"
  shows "score ks text = int (distinct_hits ks text)"
proof -
  have "card {k \<in> set ks. sublist k text} = card (set (filter (\<lambda>k. sublist k text) ks))"
    by simp
  also have "\<dots> = length (filter (\<lambda>k. sublist k text) ks)"
    by (rule distinct_card) (simp add: assms)
  finally show ?thesis
    by (simp add: score_length distinct_hits_def)
qed

lemma any_distinct_hits: "list_ex (\<lambda>k. str_in k text) ks \<longleftrightarrow> 1 \<le> distinct_hits ks text"
proof -
  have "1 \<le> card {k \<in> set ks. sublist k text} \<longleftrightarrow> {k \<in> set ks. sublist k text} \<noteq> {}"
    by (simp add: Suc_le_eq card_gt_0_iff)
  then show ?thesis
    by (auto simp: list_ex_iff str_in_def distinct_hits_def)
qed

lemma keywords_simps:
  "keywords_of ''spam'' =
     [''lottery'', ''winner'', ''urgent'', ''verify'', ''click here'', ''congratulations'']"
  "keywords_of ''security'' =
     [''password'', ''security'', ''alert'', ''verify'', ''authentication'', ''login'']"
  "keywords_of ''finance'' =
     [''invoice'', ''payment'', ''transaction'', ''bank'', ''credit'', ''debit'']"
  "keywords_of ''promotion'' = [''sale'', ''discount'', ''offer'', ''deal'', ''promo'', ''coupon'']"
  "keywords_of ''work'' = [''meeting'', ''project'', ''deadline'', ''report'', ''team'', ''office'']"
  by (simp_all add: keywords_of_def CATEGORIES_def)

lemma keywords_distinct:
  "distinct (keywords_of ''spam'')" "distinct (keywords_of ''security'')"
  "distinct (keywords_of ''promotion'')" "distinct (keywords_of ''work'')"
  by (simp_all add: keywords_simps)

lemma rule_pass_refines: "rule_based_classify text = spec_rule_pass text"
  by (simp add: rule_based_classify_def spec_rule_pass_def score_distinct_hits keywords_distinct
      any_distinct_hits)

lemma classify_rule:
  "rule_based_classify (lower (subject @ '' '' @ body @ '' '' @ sender)) = Some c
   \<Longrightarrow> classify lower self subject body sender = Inr c"
  by (simp add: classify_def)

text \<open>
  C6. The rule pass of the source is the rule pass of the specification: the categories are
  tried in the order spam (2 distinct keywords), security (2), finance (1), promotion (2),
  work (2), and the first whose threshold is reached is the answer. \<^verbatim>\<open>classify\<close> runs that
  pass on the lower-cased \<open>subject body sender\<close> and returns the category it finds,
  whichever of the five it is. So a text with two spam keywords and two work keywords is
  classified as spam. This holds for every lower-casing function.
\<close>

theorem rule_pass_priority:
  "rule_based_classify text = spec_rule_pass text \<and>
   (spec_rule_pass (lower (subject @ '' '' @ body @ '' '' @ sender)) = Some c
    \<longrightarrow> classify lower self subject body sender = Inr c) \<and>
   (2 \<le> distinct_hits (keywords_of ''spam'') (lower (subject' @ '' '' @ body' @ '' '' @ sender')) \<and>
    2 \<le> distinct_hits (keywords_of ''work'') (lower (subject' @ '' '' @ body' @ '' '' @ sender'))
    \<longrightarrow> classify lower self' subject' body' sender' = Inr ''spam'')"
proof (intro conjI impI)
  show "rule_based_classify text = spec_rule_pass text"
    by (rule rule_pass_refines)
next
  assume "spec_rule_pass (lower (subject @ '' '' @ body @ '' '' @ sender)) = Some c"
  then have "rule_based_classify (lower (subject @ '' '' @ body @ '' '' @ sender)) = Some c"
    by (simp add: rule_pass_refines)
  then show "classify lower self subject body sender = Inr c"
    by (rule classify_rule)
next
  let ?t = "lower (subject' @ '' '' @ body' @ '' '' @ sender')"
  assume "2 \<le> distinct_hits (keywords_of ''spam'') ?t \<and> 2 \<le> distinct_hits (keywords_of ''work'') ?t"
  then have "2 \<le> score (keywords_of ''spam'') ?t"
    by (simp add: score_distinct_hits keywords_distinct)
  then have "rule_based_classify ?t = Some ''spam''"
    by (simp add: rule_based_classify_def)
  then show "classify lower self' subject' body' sender' = Inr ''spam''"
    by (rule classify_rule)
qed

theorem rule_pass_priority_witness:
  "spec_rule_pass (ascii_lower (''Invoice 42'' @ '' '' @ ''Your PAYMENT is due'' @ '' '' @ ''billing@example.com''))
     = Some ''finance'' \<and>
   classify ascii_lower \<lparr>clf_mode = FAST, model = None\<rparr> ''Invoice 42'' ''Your PAYMENT is due''
     ''billing@example.com'' = Inr ''finance'' \<and>
   2 \<le> distinct_hits (keywords_of ''spam'')
          (ascii_lower (''URGENT: lottery winner'' @ '' '' @ ''Project meeting at the office'' @ '' '' @ ''boss@example.com'')) \<and>
   2 \<le> distinct_hits (keywords_of ''work'')
          (ascii_lower (''URGENT: lottery winner'' @ '' '' @ ''Project meeting at the office'' @ '' '' @ ''boss@example.com'')) \<and>
   classify ascii_lower \<lparr>clf_mode = FAST, model = None\<rparr> ''URGENT: lottery winner''
     ''Project meeting at the office'' ''boss@example.com'' = Inr ''spam''"
proof -
  have h1: "spec_rule_pass (ascii_lower (''Invoice 42'' @ '' '' @ ''Your PAYMENT is due'' @ '' '' @ ''billing@example.com''))
     = Some ''finance''"
    by code_simp
  have h2: "2 \<le> distinct_hits (keywords_of ''spam'')
          (ascii_lower (''URGENT: lottery winner'' @ '' '' @ ''Project meeting at the office'' @ '' '' @ ''boss@example.com'')) \<and>
   2 \<le> distinct_hits (keywords_of ''work'')
          (ascii_lower (''URGENT: lottery winner'' @ '' '' @ ''Project meeting at the office'' @ '' '' @ ''boss@example.com''))"
    by code_simp
  from h1 h2
    rule_pass_priority [of "[]" ascii_lower "''Invoice 42''" "''Your PAYMENT is due''"
      "''billing@example.com''" "''finance''" "\<lparr>clf_mode = FAST, model = None\<rparr>"
      "''URGENT: lottery winner''" "''Project meeting at the office''" "''boss@example.com''"
      "\<lparr>clf_mode = FAST, model = None\<rparr>"]
  show ?thesis by blast
qed

text \<open>
  C7. \<^verbatim>\<open>classify\<close> returns a category name, never the empty string, and never raises, for
  every subject, body, sender and mode, and for every lower-casing function. When no rule
  matches and the fallback gives no prediction (the mode is \<^verbatim>\<open>FAST\<close>, or no model is
  loaded, or the model raises, or it predicts the empty string), the result is
  \<^verbatim>\<open>personal\<close>.
\<close>

theorem classify_never_fails:
  "(\<exists>c. classify lower self subject body sender = Inr c \<and> c \<noteq> []) \<and>
   (rule_based_classify (lower (subject @ '' '' @ body @ '' '' @ sender)) = None \<and>
    (clf_mode self = FAST \<or> model self = None \<or>
     (\<exists>p e. model self = Some p \<and> p (lower (subject @ '' '' @ body @ '' '' @ sender)) = Inl e) \<or>
     (\<exists>p. model self = Some p \<and> p (lower (subject @ '' '' @ body @ '' '' @ sender)) = Inr []))
    \<longrightarrow> classify lower self subject body sender = Inr ''personal'')"
proof (intro conjI impI)
  let ?t = "lower (subject @ '' '' @ body @ '' '' @ sender)"
  show "\<exists>c. classify lower self subject body sender = Inr c \<and> c \<noteq> []"
  proof (cases "rule_based_classify ?t")
    case (Some c)
    then have "c \<noteq> []"
      by (auto simp: rule_based_classify_def split: if_splits)
    with Some show ?thesis by (simp add: classify_def)
  next
    case None
    then show ?thesis
      by (auto simp: classify_def ml_classify_def split: option.splits sum.splits)
  qed
next
  let ?t = "lower (subject @ '' '' @ body @ '' '' @ sender)"
  assume a: "rule_based_classify ?t = None \<and>
    (clf_mode self = FAST \<or> model self = None \<or>
     (\<exists>p e. model self = Some p \<and> p ?t = Inl e) \<or> (\<exists>p. model self = Some p \<and> p ?t = Inr []))"
  then show "classify lower self subject body sender = Inr ''personal''"
    by (auto simp: classify_def ml_classify_def split: option.splits sum.splits)
qed

theorem classify_never_fails_witness:
  "rule_based_classify (ascii_lower (''Hello'' @ '' '' @ ''See you on Sunday'' @ '' '' @ ''ann@example.com'')) = None \<and>
   classify ascii_lower \<lparr>clf_mode = ACCURATE, model = Some (\<lambda>t. Inl (Exception ''predict failed''))\<rparr>
     ''Hello'' ''See you on Sunday'' ''ann@example.com'' = Inr ''personal''"
proof -
  have h: "rule_based_classify (ascii_lower (''Hello'' @ '' '' @ ''See you on Sunday'' @ '' '' @ ''ann@example.com'')) = None"
    by code_simp
  with classify_never_fails [of ascii_lower
      "\<lparr>clf_mode = ACCURATE, model = Some (\<lambda>t. Inl (Exception ''predict failed''))\<rparr>"
      "''Hello''" "''See you on Sunday''" "''ann@example.com''"]
  show ?thesis by simp
qed

subsection \<open>The task: entry, status, cancellation\<close>

text \<open>
  C4, as the source has it. When the job or the user is missing at entry, the task logs
  and returns: the database and the world are unchanged, so no credential is resolved, no
  message is listed or processed, and a job that is present keeps its status and its
  errors. It is not set to \<^verbatim>\<open>FAILED\<close>.
\<close>

theorem missing_job_or_user_returns:
  "jobs d jid = None \<or> users d uid = None
   \<Longrightarrow> classify_emails_task g settings request_id jid uid md scp (d, s) = Some (Inr (), d, s)"
  by (auto simp: classify_emails_task_def split: option.splits)

theorem missing_job_or_user_returns_witness:
  "users \<lparr>jobs = [''j1'' \<mapsto> new_job ''j1'' ''u1'' FAST UNREAD], users = Map.empty\<rparr> ''u1'' = None \<and>
   classify_emails_task demo_env demo_settings ''t1'' ''j1'' ''u1'' FAST UNREAD
     (\<lparr>jobs = [''j1'' \<mapsto> new_job ''j1'' ''u1'' FAST UNREAD], users = Map.empty\<rparr>, world0 [] [])
   = Some (Inr (), \<lparr>jobs = [''j1'' \<mapsto> new_job ''j1'' ''u1'' FAST UNREAD], users = Map.empty\<rparr>,
           world0 [] [])"
  using missing_job_or_user_returns
    [of "\<lparr>jobs = [''j1'' \<mapsto> new_job ''j1'' ''u1'' FAST UNREAD], users = Map.empty\<rparr>" "''j1''" "''u1''"
        demo_env demo_settings "''t1''" FAST UNREAD "world0 [] []"]
  by simp

text \<open>
  C4 as stated fails: with the job present and the user missing, the job is still
  \<^verbatim>\<open>PENDING\<close> with no error entry after the run.
\<close>

theorem missing_user_not_failed_counterexample:
  "(case classify_emails_task demo_env demo_settings ''t1'' ''j1'' ''u1'' FAST UNREAD
           (\<lparr>jobs = [''j1'' \<mapsto> new_job ''j1'' ''u1'' FAST UNREAD], users = Map.empty\<rparr>, world0 [] []) of
      None \<Rightarrow> False
    | Some (r, d', s') \<Rightarrow>
        map_option status (jobs d' ''j1'') = Some PENDING \<and>
        map_option errors (jobs d' ''j1'') = Some [] \<and>
        map_option status (jobs d' ''j1'') \<noteq> Some FAILED)"
  by (simp add: classify_emails_task_def new_job_def)






subsection \<open>The loop body\<close>









subsection \<open>The message fetch and its retries\<close>

lemma get_message_detail_attempt_calls:
  "get_message_detail_attempt g mid s = (r, s')
   \<Longrightarrow> calls s' = calls s @ [MessagesGet mid] \<and> trace s' = trace s"
  by (auto simp: get_message_detail_attempt_def api_def
           split: prod.splits sum.splits if_splits)

lemma get_message_detail_attempt_http:
  "messages_get g mid (prov s) = (Inl (HttpError c), w)
   \<Longrightarrow> get_message_detail_attempt g mid s
       = (Inr None, s\<lparr>calls := calls s @ [MessagesGet mid], prov := w\<rparr>)"
  by (simp add: get_message_detail_attempt_def api_def)

lemma get_message_detail_attempt_exn:
  "messages_get g mid (prov s) = (Inl e, w) \<Longrightarrow> \<not> is_HttpError e
   \<Longrightarrow> get_message_detail_attempt g mid s
       = (Inl e, s\<lparr>calls := calls s @ [MessagesGet mid], prov := w\<rparr>)"
  by (simp add: get_message_detail_attempt_def api_def)

lemma get_message_detail_attempt_ok:
  "messages_get g mid (prov s) = (Inr msg, w) \<Longrightarrow> extract_body (b64decode g) (payload msg) = Inr b
   \<Longrightarrow> get_message_detail_attempt g mid s
       = (Inr (Some \<lparr>md_id = mid, md_subject = header_get (headers msg) ''Subject'',
                     md_from = header_get (headers msg) ''From'', md_body = b,
                     md_snippet = snippet msg, md_labels = labelIds msg\<rparr>),
          s\<lparr>calls := calls s @ [MessagesGet mid], prov := w\<rparr>)"
  by (simp add: get_message_detail_attempt_def api_def)

lemma get_message_detail_calls:
  assumes "get_message_detail g mid s = (r, s')"
  shows "\<exists>n. 1 \<le> n \<and> n \<le> 3 \<and> calls s' = calls s @ replicate n (MessagesGet mid)"
proof -
  obtain r1 s1 where a1: "get_message_detail_attempt g mid s = (r1, s1)"
    by (cases "get_message_detail_attempt g mid s")
  obtain r2 s2 where a2: "get_message_detail_attempt g mid s1 = (r2, s2)"
    by (cases "get_message_detail_attempt g mid s1")
  obtain r3 s3 where a3: "get_message_detail_attempt g mid s2 = (r3, s3)"
    by (cases "get_message_detail_attempt g mid s2")
  have c1: "calls s1 = calls s @ replicate 1 (MessagesGet mid)"
    using get_message_detail_attempt_calls [OF a1] by simp
  have c2: "calls s2 = calls s @ replicate 2 (MessagesGet mid)"
    using get_message_detail_attempt_calls [OF a2] c1 by (simp add: numeral_2_eq_2)
  have c3: "calls s3 = calls s @ replicate 3 (MessagesGet mid)"
    using get_message_detail_attempt_calls [OF a3] c2 by (simp add: numeral_3_eq_3 numeral_2_eq_2)
  have "s' = s1 \<or> s' = s2 \<or> s' = s3"
    using assms a1 a2 a3
    by (auto simp: get_message_detail_def numeral_2_eq_2 any_exception_def
             split: sum.splits)
  with c1 c2 c3 show ?thesis
    by (metis one_le_numeral order_refl one_le_numeral numeral_le_iff semiring_norm(68,69,72,73))
qed

text \<open>
  C5, as the source has it. A fetch makes between one and three calls. An \<^verbatim>\<open>HttpError\<close> of
  the provider, not-found or any other status, is caught inside the attempt: the fetch
  returns absent after that one call and is not retried. Any other exception is retried: a
  fetch that raises such an exception twice and then gets the message returns the message
  after three calls, and one that raises three times ends in \<^verbatim>\<open>RetryError\<close>.
\<close>

theorem message_detail_retry:
  "(get_message_detail g0 mid0 s0 = (r0, t0)
    \<longrightarrow> (\<exists>n. 1 \<le> n \<and> n \<le> 3 \<and> calls t0 = calls s0 @ replicate n (MessagesGet mid0))) \<and>
   (messages_get g mid (prov s) = (Inl (HttpError c), w)
    \<longrightarrow> get_message_detail g mid s
        = (Inr None, s\<lparr>calls := calls s @ [MessagesGet mid], prov := w\<rparr>)) \<and>
   (messages_get g1 mid1 (prov s1) = (Inl e1, w1) \<and> \<not> is_HttpError e1 \<and>
    messages_get g1 mid1 w1 = (Inl e2, w2) \<and> \<not> is_HttpError e2 \<and>
    messages_get g1 mid1 w2 = (Inr msg, w3) \<and> extract_body (b64decode g1) (payload msg) = Inr b
    \<longrightarrow> get_message_detail g1 mid1 s1
        = (Inr (Some \<lparr>md_id = mid1, md_subject = header_get (headers msg) ''Subject'',
                      md_from = header_get (headers msg) ''From'', md_body = b,
                      md_snippet = snippet msg, md_labels = labelIds msg\<rparr>),
           s1\<lparr>calls := calls s1 @ [MessagesGet mid1, MessagesGet mid1, MessagesGet mid1],
               prov := w3\<rparr>)) \<and>
   (messages_get g2 mid2 (prov s2) = (Inl x1, v1) \<and> \<not> is_HttpError x1 \<and>
    messages_get g2 mid2 v1 = (Inl x2, v2) \<and> \<not> is_HttpError x2 \<and>
    messages_get g2 mid2 v2 = (Inl x3, v3) \<and> \<not> is_HttpError x3
    \<longrightarrow> get_message_detail g2 mid2 s2
        = (Inl (RetryError x3),
           s2\<lparr>calls := calls s2 @ [MessagesGet mid2, MessagesGet mid2, MessagesGet mid2],
               prov := v3\<rparr>))"
proof (intro conjI impI)
  assume "get_message_detail g0 mid0 s0 = (r0, t0)"
  then show "\<exists>n. 1 \<le> n \<and> n \<le> 3 \<and> calls t0 = calls s0 @ replicate n (MessagesGet mid0)"
    by (rule get_message_detail_calls)
next
  assume "messages_get g mid (prov s) = (Inl (HttpError c), w)"
  then show "get_message_detail g mid s
        = (Inr None, s\<lparr>calls := calls s @ [MessagesGet mid], prov := w\<rparr>)"
    by (simp add: get_message_detail_def numeral_2_eq_2 get_message_detail_attempt_http)
next
  assume a: "messages_get g1 mid1 (prov s1) = (Inl e1, w1) \<and> \<not> is_HttpError e1 \<and>
    messages_get g1 mid1 w1 = (Inl e2, w2) \<and> \<not> is_HttpError e2 \<and>
    messages_get g1 mid1 w2 = (Inr msg, w3) \<and> extract_body (b64decode g1) (payload msg) = Inr b"
  let ?t1 = "s1\<lparr>calls := calls s1 @ [MessagesGet mid1], prov := w1\<rparr>"
  let ?t2 = "?t1\<lparr>calls := calls ?t1 @ [MessagesGet mid1], prov := w2\<rparr>"
  have 1: "get_message_detail_attempt g1 mid1 s1 = (Inl e1, ?t1)"
    using a by (simp add: get_message_detail_attempt_exn)
  have 2: "get_message_detail_attempt g1 mid1 ?t1 = (Inl e2, ?t2)"
    using a by (intro get_message_detail_attempt_exn) simp_all
  have 3: "get_message_detail_attempt g1 mid1 ?t2
           = (Inr (Some \<lparr>md_id = mid1, md_subject = header_get (headers msg) ''Subject'',
                      md_from = header_get (headers msg) ''From'', md_body = b,
                      md_snippet = snippet msg, md_labels = labelIds msg\<rparr>),
              ?t2\<lparr>calls := calls ?t2 @ [MessagesGet mid1], prov := w3\<rparr>)"
    using a by (intro get_message_detail_attempt_ok) simp_all
  have "get_message_detail g1 mid1 s1
        = (Inr (Some \<lparr>md_id = mid1, md_subject = header_get (headers msg) ''Subject'',
                      md_from = header_get (headers msg) ''From'', md_body = b,
                      md_snippet = snippet msg, md_labels = labelIds msg\<rparr>),
           ?t2\<lparr>calls := calls ?t2 @ [MessagesGet mid1], prov := w3\<rparr>)"
    by (simp only: get_message_detail_def numeral_2_eq_2 retrying.simps 1 2 3 any_exception_def
          prod.case sum.case if_True)
  then show "get_message_detail g1 mid1 s1
        = (Inr (Some \<lparr>md_id = mid1, md_subject = header_get (headers msg) ''Subject'',
                      md_from = header_get (headers msg) ''From'', md_body = b,
                      md_snippet = snippet msg, md_labels = labelIds msg\<rparr>),
           s1\<lparr>calls := calls s1 @ [MessagesGet mid1, MessagesGet mid1, MessagesGet mid1],
               prov := w3\<rparr>)"
    by simp
next
  assume a: "messages_get g2 mid2 (prov s2) = (Inl x1, v1) \<and> \<not> is_HttpError x1 \<and>
    messages_get g2 mid2 v1 = (Inl x2, v2) \<and> \<not> is_HttpError x2 \<and>
    messages_get g2 mid2 v2 = (Inl x3, v3) \<and> \<not> is_HttpError x3"
  let ?t1 = "s2\<lparr>calls := calls s2 @ [MessagesGet mid2], prov := v1\<rparr>"
  let ?t2 = "?t1\<lparr>calls := calls ?t1 @ [MessagesGet mid2], prov := v2\<rparr>"
  let ?t3 = "?t2\<lparr>calls := calls ?t2 @ [MessagesGet mid2], prov := v3\<rparr>"
  have 1: "get_message_detail_attempt g2 mid2 s2 = (Inl x1, ?t1)"
    using a by (simp add: get_message_detail_attempt_exn)
  have 2: "get_message_detail_attempt g2 mid2 ?t1 = (Inl x2, ?t2)"
    using a by (intro get_message_detail_attempt_exn) simp_all
  have 3: "get_message_detail_attempt g2 mid2 ?t2 = (Inl x3, ?t3)"
    using a by (intro get_message_detail_attempt_exn) simp_all
  have "get_message_detail g2 mid2 s2 = (Inl (RetryError x3), ?t3)"
    by (simp only: get_message_detail_def numeral_2_eq_2 retrying.simps 1 2 3 any_exception_def
          prod.case sum.case if_True)
  then show "get_message_detail g2 mid2 s2
        = (Inl (RetryError x3),
           s2\<lparr>calls := calls s2 @ [MessagesGet mid2, MessagesGet mid2, MessagesGet mid2],
               prov := v3\<rparr>)"
    by simp
qed

theorem message_detail_retry_witness:
  "(\<exists>n. 1 \<le> n \<and> n \<le> 3 \<and>
        calls (snd (get_message_detail demo_env ''m1''
                      (world0 [(''m1'', plain ''Hello'' ''ann@example.com'' ''See you on Sunday'')] [])))
        = calls (world0 [(''m1'', plain ''Hello'' ''ann@example.com'' ''See you on Sunday'')] [])
          @ replicate n (MessagesGet ''m1'')) \<and>
   get_message_detail demo_env ''m9''
     (world0 [(''m1'', plain ''Hello'' ''ann@example.com'' ''See you on Sunday'')] [])
   = (Inr None,
      (world0 [(''m1'', plain ''Hello'' ''ann@example.com'' ''See you on Sunday'')] [])
        \<lparr>calls := [MessagesGet ''m9'']\<rparr>) \<and>
   fst (get_message_detail demo_env ''m1''
          (world0 [(''m1'', plain ''Hello'' ''ann@example.com'' ''See you on Sunday'')]
                  [Exception ''timeout'', Exception ''reset'']))
   = Inr (Some \<lparr>md_id = ''m1'', md_subject = ''Hello'', md_from = ''ann@example.com'',
                md_body = ''See you on Sunday'', md_snippet = [], md_labels = []\<rparr>) \<and>
   fst (get_message_detail demo_env ''m1''
          (world0 [(''m1'', plain ''Hello'' ''ann@example.com'' ''See you on Sunday'')]
                  [Exception ''timeout'', Exception ''reset'', Exception ''closed'']))
   = Inl (RetryError (Exception ''closed''))"
proof -
  let ?m = "plain ''Hello'' ''ann@example.com'' ''See you on Sunday''"
  let ?box = "[(''m1'', ?m)]"
  let ?w = "\<lambda>fs. \<lparr>inbox = ?box, remote_labels = [], applied = [], get_faults = fs\<rparr>"
  have p: "\<And>box fs. prov (world0 box fs)
             = \<lparr>inbox = box, remote_labels = [], applied = [], get_faults = fs\<rparr>"
    by (simp add: world0_def)
  have g: "messages_get demo_env = ref_get" "b64decode demo_env = (\<lambda>d. Inr d)"
    by (simp_all add: demo_env_def ref_env_def)
  have h1: "get_message_detail demo_env ''m1'' (world0 ?box [])
            = (fst (get_message_detail demo_env ''m1'' (world0 ?box [])),
               snd (get_message_detail demo_env ''m1'' (world0 ?box [])))"
    by simp
  have h2: "messages_get demo_env ''m9'' (prov (world0 ?box [])) = (Inl (HttpError 404), ?w [])"
    by (simp add: g p ref_get_def)
  have h3: "messages_get demo_env ''m1'' (prov (world0 ?box [Exception ''timeout'', Exception ''reset'']))
              = (Inl (Exception ''timeout''), ?w [Exception ''reset'']) \<and>
            \<not> is_HttpError (Exception ''timeout'') \<and>
            messages_get demo_env ''m1'' (?w [Exception ''reset'']) = (Inl (Exception ''reset''), ?w []) \<and>
            \<not> is_HttpError (Exception ''reset'') \<and>
            messages_get demo_env ''m1'' (?w []) = (Inr ?m, ?w []) \<and>
            extract_body (b64decode demo_env) (payload ?m) = Inr ''See you on Sunday''"
    by (simp add: g p ref_get_def plain_def)
  have h4: "messages_get demo_env ''m1''
              (prov (world0 ?box [Exception ''timeout'', Exception ''reset'', Exception ''closed'']))
              = (Inl (Exception ''timeout''), ?w [Exception ''reset'', Exception ''closed'']) \<and>
            \<not> is_HttpError (Exception ''timeout'') \<and>
            messages_get demo_env ''m1'' (?w [Exception ''reset'', Exception ''closed''])
              = (Inl (Exception ''reset''), ?w [Exception ''closed'']) \<and>
            \<not> is_HttpError (Exception ''reset'') \<and>
            messages_get demo_env ''m1'' (?w [Exception ''closed'']) = (Inl (Exception ''closed''), ?w []) \<and>
            \<not> is_HttpError (Exception ''closed'')"
    by (simp add: g p ref_get_def)
  have hd: "header_get (headers ?m) ''Subject'' = ''Hello''"
           "header_get (headers ?m) ''From'' = ''ann@example.com''"
           "snippet ?m = []" "labelIds ?m = []"
    by (simp_all add: plain_def header_get_def)
  from h1 h2 h3 h4
    message_detail_retry
      [where ?g0.0 = demo_env and ?mid0.0 = "''m1''" and ?s0.0 = "world0 ?box []"
         and ?r0.0 = "fst (get_message_detail demo_env ''m1'' (world0 ?box []))"
         and ?t0.0 = "snd (get_message_detail demo_env ''m1'' (world0 ?box []))"
         and g = demo_env and mid = "''m9''" and s = "world0 ?box []" and c = 404 and w = "?w []"
         and ?g1.0 = demo_env and ?mid1.0 = "''m1''"
         and ?s1.0 = "world0 ?box [Exception ''timeout'', Exception ''reset'']"
         and ?e1.0 = "Exception ''timeout''" and ?w1.0 = "?w [Exception ''reset'']"
         and ?e2.0 = "Exception ''reset''" and ?w2.0 = "?w []" and msg = ?m and ?w3.0 = "?w []"
         and b = "''See you on Sunday''"
         and ?g2.0 = demo_env and ?mid2.0 = "''m1''"
         and ?s2.0 = "world0 ?box [Exception ''timeout'', Exception ''reset'', Exception ''closed'']"
         and ?x1.0 = "Exception ''timeout''" and ?v1.0 = "?w [Exception ''reset'', Exception ''closed'']"
         and ?x2.0 = "Exception ''reset''" and ?v2.0 = "?w [Exception ''closed'']"
         and ?x3.0 = "Exception ''closed''" and ?v3.0 = "?w []"]
  have "(\<exists>n. 1 \<le> n \<and> n \<le> 3 \<and>
          calls (snd (get_message_detail demo_env ''m1'' (world0 ?box [])))
          = calls (world0 ?box []) @ replicate n (MessagesGet ''m1''))"
    and "get_message_detail demo_env ''m9'' (world0 ?box [])
         = (Inr None, (world0 ?box [])\<lparr>calls := calls (world0 ?box []) @ [MessagesGet ''m9''],
                                        prov := ?w []\<rparr>)"
    and "fst (get_message_detail demo_env ''m1'' (world0 ?box [Exception ''timeout'', Exception ''reset'']))
         = Inr (Some \<lparr>md_id = ''m1'', md_subject = header_get (headers ?m) ''Subject'',
                      md_from = header_get (headers ?m) ''From'', md_body = ''See you on Sunday'',
                      md_snippet = snippet ?m, md_labels = labelIds ?m\<rparr>)"
    and "fst (get_message_detail demo_env ''m1''
           (world0 ?box [Exception ''timeout'', Exception ''reset'', Exception ''closed'']))
         = Inl (RetryError (Exception ''closed''))"
    by simp_all
  then show ?thesis
    by (simp add: hd world0_def)
qed

text \<open>
  C5 as stated fails. A message that exists, behind a provider that answers 503 to the next
  two calls: the first answer ends the fetch, which returns absent after one call, with the
  second 503 never asked for; the claim has it retried to success. And a not-found answer
  gives absent after one call, not after the third.
\<close>

theorem transient_error_not_retried_counterexample:
  "get_message_detail demo_env ''m1''
     (world0 [(''m1'', plain ''Hello'' ''ann@example.com'' ''See you on Sunday'')]
             [HttpError 503, HttpError 503])
   = (Inr None,
      (world0 [(''m1'', plain ''Hello'' ''ann@example.com'' ''See you on Sunday'')] [HttpError 503])
        \<lparr>calls := [MessagesGet ''m1'']\<rparr>) \<and>
   get_message_detail demo_env ''m9''
     (world0 [(''m1'', plain ''Hello'' ''ann@example.com'' ''See you on Sunday'')] [])
   = (Inr None,
      (world0 [(''m1'', plain ''Hello'' ''ann@example.com'' ''See you on Sunday'')] [])
        \<lparr>calls := [MessagesGet ''m9'']\<rparr>)"
  by code_simp

subsection \<open>The label manager\<close>

lemma find_append_label:
  "find P (xs @ ys) = (case find P xs of None \<Rightarrow> find P ys | Some x \<Rightarrow> Some x)"
  by (induction xs) simp_all

lemma create_label_attempt_found:
  "labels_list g (prov s) = (Inr ls, w)
   \<Longrightarrow> find (\<lambda>l. str_lower g (label_name l) = str_lower g name) ls = Some l
   \<Longrightarrow> create_label_attempt g name s
       = (Inr (label_id l), s\<lparr>calls := calls s @ [LabelsList], prov := w\<rparr>)"
  by (simp add: create_label_attempt_def api_def)

lemma create_label_attempt_created:
  "labels_list g (prov s) = (Inr ls, w)
   \<Longrightarrow> find (\<lambda>l. str_lower g (label_name l) = str_lower g name) ls = None
   \<Longrightarrow> labels_create g name w = (Inr l, w')
   \<Longrightarrow> create_label_attempt g name s
       = (Inr (label_id l), s\<lparr>calls := calls s @ [LabelsList, LabelsCreate name], prov := w'\<rparr>)"
  by (simp add: create_label_attempt_def api_def)

lemma create_label_found:
  "labels_list g (prov s) = (Inr ls, w)
   \<Longrightarrow> find (\<lambda>l. str_lower g (label_name l) = str_lower g name) ls = Some l
   \<Longrightarrow> create_label g name s = (Inr (label_id l), s\<lparr>calls := calls s @ [LabelsList], prov := w\<rparr>)"
  by (simp add: create_label_def numeral_2_eq_2 create_label_attempt_found)

lemma create_label_created:
  "labels_list g (prov s) = (Inr ls, w)
   \<Longrightarrow> find (\<lambda>l. str_lower g (label_name l) = str_lower g name) ls = None
   \<Longrightarrow> labels_create g name w = (Inr l, w')
   \<Longrightarrow> create_label g name s
       = (Inr (label_id l), s\<lparr>calls := calls s @ [LabelsList, LabelsCreate name], prov := w'\<rparr>)"
  by (simp add: create_label_def numeral_2_eq_2 create_label_attempt_created)

lemma create_label_store:
  assumes lst: "\<forall>w. labels_list g w = (Inr (stored w), w)"
    and crt: "\<forall>n w. \<exists>l w'. labels_create g n w = (Inr l, w') \<and> label_name l = n \<and>
                              stored w' = stored w @ [l]"
  shows "\<exists>i s1. create_label g name s = (Inr i, s1) \<and>
           length (filter (\<lambda>c. c = LabelsCreate name) (calls s1))
             \<le> length (filter (\<lambda>c. c = LabelsCreate name) (calls s)) + 1 \<and>
           (\<forall>s' extra. stored (prov s') = stored (prov s1) @ extra
              \<longrightarrow> create_label g name s'
                  = (Inr i, s'\<lparr>calls := calls s' @ [LabelsList], prov := prov s'\<rparr>))"
proof -
  let ?P = "\<lambda>l. str_lower g (label_name l) = str_lower g name"
  have l0: "labels_list g (prov s) = (Inr (stored (prov s)), prov s)"
    using lst by simp
  show ?thesis
  proof (cases "find ?P (stored (prov s))")
    case (Some l)
    have first: "create_label g name s
                 = (Inr (label_id l), s\<lparr>calls := calls s @ [LabelsList], prov := prov s\<rparr>)"
      by (rule create_label_found [OF l0 Some])
    have later: "create_label g name s'
                 = (Inr (label_id l), s'\<lparr>calls := calls s' @ [LabelsList], prov := prov s'\<rparr>)"
      if "stored (prov s') = stored (prov s) @ extra" for s' extra
    proof -
      have "labels_list g (prov s') = (Inr (stored (prov s) @ extra), prov s')"
        using lst that by simp
      moreover have "find ?P (stored (prov s) @ extra) = Some l"
        by (simp add: find_append_label Some)
      ultimately show ?thesis
        by (rule create_label_found)
    qed
    from first later show ?thesis by auto
  next
    case None
    from crt obtain l w' where c: "labels_create g name (prov s) = (Inr l, w')"
      "label_name l = name" "stored w' = stored (prov s) @ [l]"
      by blast
    have first: "create_label g name s
                 = (Inr (label_id l),
                    s\<lparr>calls := calls s @ [LabelsList, LabelsCreate name], prov := w'\<rparr>)"
      by (rule create_label_created [OF l0 None c(1)])
    have later: "create_label g name s'
                 = (Inr (label_id l), s'\<lparr>calls := calls s' @ [LabelsList], prov := prov s'\<rparr>)"
      if "stored (prov s') = (stored (prov s) @ [l]) @ extra" for s' extra
    proof -
      have "labels_list g (prov s') = (Inr ((stored (prov s) @ [l]) @ extra), prov s')"
        using lst that by simp
      moreover have "find ?P ((stored (prov s) @ [l]) @ extra) = Some l"
        by (simp add: find_append_label None c(2))
      ultimately show ?thesis
        by (rule create_label_found)
    qed
    from first later c(3) show ?thesis by auto
  qed
qed

lemma create_label_attempt_calls:
  "create_label_attempt g name s = (r, s')
   \<Longrightarrow> calls s' = calls s @ [LabelsList] \<or> calls s' = calls s @ [LabelsList, LabelsCreate name]"
  by (auto simp: create_label_attempt_def api_def split: prod.splits sum.splits option.splits)

lemma create_label_attempt_count:
  "create_label_attempt g name s = (r, s')
   \<Longrightarrow> length (filter (\<lambda>c. c = LabelsCreate name) (calls s'))
       \<le> length (filter (\<lambda>c. c = LabelsCreate name) (calls s)) + 1"
  by (drule create_label_attempt_calls) auto

lemma create_label_count:
  assumes "create_label g name s = (r, s')"
  shows "length (filter (\<lambda>c. c = LabelsCreate name) (calls s'))
         \<le> length (filter (\<lambda>c. c = LabelsCreate name) (calls s)) + 3"
proof -
  let ?n = "\<lambda>s. length (filter (\<lambda>c. c = LabelsCreate name) (calls s))"
  obtain r1 s1 where a1: "create_label_attempt g name s = (r1, s1)"
    by (cases "create_label_attempt g name s")
  obtain r2 s2 where a2: "create_label_attempt g name s1 = (r2, s2)"
    by (cases "create_label_attempt g name s1")
  obtain r3 s3 where a3: "create_label_attempt g name s2 = (r3, s3)"
    by (cases "create_label_attempt g name s2")
  note create_label_attempt_count [OF a1] create_label_attempt_count [OF a2]
    create_label_attempt_count [OF a3]
  moreover have "s' = s1 \<or> s' = s2 \<or> s' = s3"
    using assms a1 a2 a3
    by (auto simp: create_label_def numeral_2_eq_2 any_exception_def split: sum.splits)
  ultimately show ?thesis by auto
qed

text \<open>
  C9, as the source has it. One call lists the remote labels; a label whose lower-cased
  name is the lower-cased name asked for is reused, the first one in the listing, with no
  creation call; only when there is none is the label created, with one creation call.
  Against a label store (the listing returns the stored labels, a creation returns and
  appends a label of the given name), a call returns an id after at most one creation call,
  and every later call, whatever labels were stored in between, returns the same id with no
  creation call. For an arbitrary provider a call makes at most three creation calls, one
  for each attempt of the retry.
\<close>

theorem create_label_idempotent:
  "(labels_list g0 (prov s0) = (Inr ls0, w0) \<and>
    find (\<lambda>l. str_lower g0 (label_name l) = str_lower g0 name0) ls0 = Some l0
    \<longrightarrow> create_label g0 name0 s0
        = (Inr (label_id l0), s0\<lparr>calls := calls s0 @ [LabelsList], prov := w0\<rparr>)) \<and>
   (labels_list g1 (prov s1) = (Inr ls1, w1) \<and>
    find (\<lambda>l. str_lower g1 (label_name l) = str_lower g1 name1) ls1 = None \<and>
    labels_create g1 name1 w1 = (Inr l1, v1)
    \<longrightarrow> create_label g1 name1 s1
        = (Inr (label_id l1), s1\<lparr>calls := calls s1 @ [LabelsList, LabelsCreate name1], prov := v1\<rparr>)) \<and>
   ((\<forall>w. labels_list g w = (Inr (stored w), w)) \<and>
    (\<forall>n w. \<exists>l w'. labels_create g n w = (Inr l, w') \<and> label_name l = n \<and>
                    stored w' = stored w @ [l])
    \<longrightarrow> (\<exists>i t. create_label g name s = (Inr i, t) \<and>
           length (filter (\<lambda>c. c = LabelsCreate name) (calls t))
             \<le> length (filter (\<lambda>c. c = LabelsCreate name) (calls s)) + 1 \<and>
           (\<forall>s' extra. stored (prov s') = stored (prov t) @ extra
              \<longrightarrow> create_label g name s'
                  = (Inr i, s'\<lparr>calls := calls s' @ [LabelsList], prov := prov s'\<rparr>)))) \<and>
   (create_label g2 name2 s2 = (r2, t2)
    \<longrightarrow> length (filter (\<lambda>c. c = LabelsCreate name2) (calls t2))
        \<le> length (filter (\<lambda>c. c = LabelsCreate name2) (calls s2)) + 3)"
proof (intro conjI impI)
  assume "labels_list g0 (prov s0) = (Inr ls0, w0) \<and>
    find (\<lambda>l. str_lower g0 (label_name l) = str_lower g0 name0) ls0 = Some l0"
  then show "create_label g0 name0 s0
        = (Inr (label_id l0), s0\<lparr>calls := calls s0 @ [LabelsList], prov := w0\<rparr>)"
    by (simp add: create_label_found)
next
  assume "labels_list g1 (prov s1) = (Inr ls1, w1) \<and>
    find (\<lambda>l. str_lower g1 (label_name l) = str_lower g1 name1) ls1 = None \<and>
    labels_create g1 name1 w1 = (Inr l1, v1)"
  then show "create_label g1 name1 s1
        = (Inr (label_id l1), s1\<lparr>calls := calls s1 @ [LabelsList, LabelsCreate name1], prov := v1\<rparr>)"
    by (simp add: create_label_created)
next
  assume a: "(\<forall>w. labels_list g w = (Inr (stored w), w)) \<and>
    (\<forall>n w. \<exists>l w'. labels_create g n w = (Inr l, w') \<and> label_name l = n \<and>
                    stored w' = stored w @ [l])"
  show "\<exists>i t. create_label g name s = (Inr i, t) \<and>
           length (filter (\<lambda>c. c = LabelsCreate name) (calls t))
             \<le> length (filter (\<lambda>c. c = LabelsCreate name) (calls s)) + 1 \<and>
           (\<forall>s' extra. stored (prov s') = stored (prov t) @ extra
              \<longrightarrow> create_label g name s'
                  = (Inr i, s'\<lparr>calls := calls s' @ [LabelsList], prov := prov s'\<rparr>))"
    by (rule create_label_store) (use a in blast)+
next
  assume "create_label g2 name2 s2 = (r2, t2)"
  then show "length (filter (\<lambda>c. c = LabelsCreate name2) (calls t2))
        \<le> length (filter (\<lambda>c. c = LabelsCreate name2) (calls s2)) + 3"
    by (rule create_label_count)
qed

theorem create_label_idempotent_witness:
  "create_label demo_env ''Cloudidian/Work''
     ((world0 [] [])\<lparr>prov := \<lparr>inbox = [], remote_labels = [\<lparr>label_name = ''CLOUDIDIAN/work'', label_id = ''L7''\<rparr>],
                              applied = [], get_faults = []\<rparr>\<rparr>)
   = (Inr ''L7'',
      (world0 [] [])\<lparr>calls := [LabelsList],
                      prov := \<lparr>inbox = [], remote_labels = [\<lparr>label_name = ''CLOUDIDIAN/work'', label_id = ''L7''\<rparr>],
                               applied = [], get_faults = []\<rparr>\<rparr>) \<and>
   create_label demo_env ''Cloudidian/Work'' (world0 [] [])
   = (Inr ''Label_Cloudidian/Work'',
      (world0 [] [])\<lparr>calls := [LabelsList, LabelsCreate ''Cloudidian/Work''],
                      prov := \<lparr>inbox = [],
                               remote_labels = [\<lparr>label_name = ''Cloudidian/Work'',
                                                 label_id = ''Label_Cloudidian/Work''\<rparr>],
                               applied = [], get_faults = []\<rparr>\<rparr>) \<and>
   (\<exists>i t. create_label demo_env ''Cloudidian/Work'' (world0 [] []) = (Inr i, t) \<and>
          length (filter (\<lambda>c. c = LabelsCreate ''Cloudidian/Work'') (calls t)) \<le> 1 \<and>
          create_label demo_env ''Cloudidian/Work'' t = (Inr i, t\<lparr>calls := calls t @ [LabelsList]\<rparr>)) \<and>
   length (filter (\<lambda>c. c = LabelsCreate ''Cloudidian/Work'')
             (calls (snd (create_label demo_env ''Cloudidian/Work'' (world0 [] []))))) \<le> 3"
proof -
  let ?n = "''Cloudidian/Work''"
  let ?old = "\<lparr>label_name = ''CLOUDIDIAN/work'', label_id = ''L7''\<rparr>"
  let ?new = "\<lparr>label_name = ?n, label_id = ''Label_Cloudidian/Work''\<rparr>"
  let ?w = "\<lambda>ls. \<lparr>inbox = [], remote_labels = ls, applied = [], get_faults = []\<rparr>"
  let ?s0 = "(world0 [] [])\<lparr>prov := ?w [?old]\<rparr>"
  have g: "labels_list demo_env = (\<lambda>w. (Inr (remote_labels w), w))"
    "labels_create demo_env = ref_create (\<lambda>ls name. ''Label_'' @ name)"
    "str_lower demo_env = ascii_lower"
    by (simp_all add: demo_env_def ref_env_def)
  have low: "ascii_lower ''CLOUDIDIAN/work'' = ascii_lower ?n"
    by code_simp
  have h0: "labels_list demo_env (prov ?s0) = (Inr [?old], ?w [?old]) \<and>
            find (\<lambda>l. str_lower demo_env (label_name l) = str_lower demo_env ?n) [?old] = Some ?old"
    by (simp add: g low)
  have h1: "labels_list demo_env (prov (world0 [] [])) = (Inr [], ?w []) \<and>
            find (\<lambda>l. str_lower demo_env (label_name l) = str_lower demo_env ?n) [] = None \<and>
            labels_create demo_env ?n (?w []) = (Inr ?new, ?w [?new])"
    by (simp add: g world0_def ref_create_def Let_def)
  have h2: "(\<forall>w. labels_list demo_env w = (Inr (remote_labels w), w)) \<and>
            (\<forall>n w. \<exists>l w'. labels_create demo_env n w = (Inr l, w') \<and> label_name l = n \<and>
                            remote_labels w' = remote_labels w @ [l])"
    by (simp add: g ref_create_def Let_def)
  have h3: "create_label demo_env ?n (world0 [] [])
            = (fst (create_label demo_env ?n (world0 [] [])),
               snd (create_label demo_env ?n (world0 [] [])))"
    by simp
  note inst = create_label_idempotent
      [where ?g0.0 = demo_env and ?s0.0 = ?s0 and ?ls0.0 = "[?old]" and ?w0.0 = "?w [?old]"
         and ?name0.0 = ?n and ?l0.0 = ?old
         and ?g1.0 = demo_env and ?s1.0 = "world0 [] []" and ?ls1.0 = "[]" and ?w1.0 = "?w []"
         and ?name1.0 = ?n and ?l1.0 = ?new and ?v1.0 = "?w [?new]"
         and g = demo_env and stored = remote_labels and name = ?n and s = "world0 [] []"
         and ?g2.0 = demo_env and ?name2.0 = ?n and ?s2.0 = "world0 [] []"
         and ?r2.0 = "fst (create_label demo_env ?n (world0 [] []))"
         and ?t2.0 = "snd (create_label demo_env ?n (world0 [] []))"]
  from inst h0 have a: "create_label demo_env ?n ?s0
        = (Inr (label_id ?old), ?s0\<lparr>calls := calls ?s0 @ [LabelsList], prov := ?w [?old]\<rparr>)"
    by blast
  from inst h1 have b: "create_label demo_env ?n (world0 [] [])
        = (Inr (label_id ?new),
           (world0 [] [])\<lparr>calls := calls (world0 [] []) @ [LabelsList, LabelsCreate ?n],
                           prov := ?w [?new]\<rparr>)"
    by blast
  from inst h2 obtain i t where c:
    "create_label demo_env ?n (world0 [] []) = (Inr i, t)"
    "length (filter (\<lambda>c. c = LabelsCreate ?n) (calls t))
       \<le> length (filter (\<lambda>c. c = LabelsCreate ?n) (calls (world0 [] []))) + 1"
    "\<forall>s' extra. remote_labels (prov s') = remote_labels (prov t) @ extra
        \<longrightarrow> create_label demo_env ?n s'
            = (Inr i, s'\<lparr>calls := calls s' @ [LabelsList], prov := prov s'\<rparr>)"
    by blast
  from c(3) have c3: "create_label demo_env ?n t = (Inr i, t\<lparr>calls := calls t @ [LabelsList]\<rparr>)"
    by (drule_tac x = t in spec) simp
  from inst h3 have d: "length (filter (\<lambda>c. c = LabelsCreate ?n)
                          (calls (snd (create_label demo_env ?n (world0 [] [])))))
        \<le> length (filter (\<lambda>c. c = LabelsCreate ?n) (calls (world0 [] []))) + 3"
    by blast
  have e: "calls (world0 [] []) = []"
    by (simp add: world0_def)
  have c': "\<exists>i t. create_label demo_env ?n (world0 [] []) = (Inr i, t) \<and>
          length (filter (\<lambda>c. c = LabelsCreate ?n) (calls t)) \<le> 1 \<and>
          create_label demo_env ?n t = (Inr i, t\<lparr>calls := calls t @ [LabelsList]\<rparr>)"
    using c(1,2) c3 by (intro exI [of _ i] exI [of _ t]) (simp add: e)
  from a have a': "create_label demo_env ?n ?s0
        = (Inr ''L7'', (world0 [] [])\<lparr>calls := [LabelsList], prov := ?w [?old]\<rparr>)"
    by (simp add: world0_def)
  from b have b': "create_label demo_env ?n (world0 [] [])
        = (Inr ''Label_Cloudidian/Work'',
           (world0 [] [])\<lparr>calls := [LabelsList, LabelsCreate ?n], prov := ?w [?new]\<rparr>)"
    by (simp add: world0_def)
  from d have d': "length (filter (\<lambda>c. c = LabelsCreate ?n)
                          (calls (snd (create_label demo_env ?n (world0 [] []))))) \<le> 3"
    by (simp only: e list.size filter.simps add_0)
  from a' b' c' d' show ?thesis
    by (intro conjI)
qed

text \<open>
  C9 as stated fails: behind a provider whose \<^verbatim>\<open>labels.create\<close> fails once with a 503, one
  call lists, asks for the creation, and is retried: it lists again, finds nothing and asks
  for the creation a second time.
\<close>

theorem create_retried_counterexample:
  "fst (create_label flaky_create_env ''Cloudidian/Work'' (world0 [] [HttpError 503]))
   = Inr ''Label_Cloudidian/Work'' \<and>
   calls (snd (create_label flaky_create_env ''Cloudidian/Work'' (world0 [] [HttpError 503])))
   = [LabelsList, LabelsCreate ''Cloudidian/Work'', LabelsList, LabelsCreate ''Cloudidian/Work'']"
  by code_simp

subsection \<open>The loop and cancellation\<close>















end
